theory Spec2Isabelle
  imports Main
begin

section \<open>The review list item of the add-ons storefront\<close>

text \<open>
  A shallow embedding of \<^verbatim>\<open>src/amo/components/AddonReviewListItem/index.js\<close>:
  the class \<^verbatim>\<open>AddonReviewListItemBase\<close> (six event handlers, \<^verbatim>\<open>renderReply\<close>,
  \<^verbatim>\<open>render\<close>) and the function \<^verbatim>\<open>mapStateToProps\<close>.

  \<^item> An optional property (\<^verbatim>\<open>review?\<close>, \<^verbatim>\<open>addon?\<close>, \<^verbatim>\<open>isReplyToReviewId?\<close>,
    \<^verbatim>\<open>review.reply\<close>) is an \<open>option\<close>; JavaScript's test \<^verbatim>\<open>!x\<close> on an object or
    \<^verbatim>\<open>undefined\<close> is \<open>x = None\<close>.
  \<^item> \<^verbatim>\<open>dispatch\<close>, \<^verbatim>\<open>log.debug\<close> and \<^verbatim>\<open>event.preventDefault\<close> are effects on
    an explicit \<open>world\<close>; a handler returns the exception it threw, if any, and the
    world it left.
  \<^item> \<^verbatim>\<open>render\<close> returns the tree of React elements it builds; the components it
    mentions (\<^verbatim>\<open>Icon\<close>, \<^verbatim>\<open>Rating\<close>, \<^verbatim>\<open>LoadingText\<close>, \<^verbatim>\<open>AddonReview\<close>,
    \<^verbatim>\<open>DismissibleTextForm\<close>, the nested \<^verbatim>\<open>AddonReviewListItem\<close>) stay unexpanded
    elements, as they are in the value \<^verbatim>\<open>render\<close> returns.
  \<^item> Functions imported from other modules (\<^verbatim>\<open>isAddonAuthor\<close>, \<^verbatim>\<open>nl2br\<close>,
    \<^verbatim>\<open>sanitizeHTML\<close>, \<^verbatim>\<open>isAuthenticated\<close>, the translation object) are parameters.
\<close>

subsection \<open>Data\<close>

text \<open>
  \<^verbatim>\<open>UserReviewType\<close>: the fields this component reads. The selector for \<^verbatim>\<open>id\<close> is
  \<open>review_id\<close>. A reply is itself a review.
\<close>

datatype review = Review
  (review_id: int)
  (title: string)
  (body: string)
  (rating: int)
  (userId: int)
  (userName: string)
  (created: string)
  (reply: "review option")

text \<open>
  \<^verbatim>\<open>UserStateType\<close> (\<^verbatim>\<open>state.user\<close>): only \<^verbatim>\<open>siteUser.id\<close> is read here. It is
  optional: a viewer who is not signed in has no identifier.
\<close>

record siteUser =
  user_id :: "int option"

text \<open>\<^verbatim>\<open>ErrorHandlerType\<close>: \<^verbatim>\<open>errorHandler.id\<close> and the result of \<^verbatim>\<open>errorHandler.hasError()\<close>.\<close>

record errorHandler =
  eh_id :: string
  hasError :: bool

text \<open>
  The translation object \<^verbatim>\<open>i18n\<close>: \<^verbatim>\<open>gettext\<close>, \<^verbatim>\<open>sprintf\<close> with its named
  arguments, and \<^verbatim>\<open>i18n.moment(created).fromNow()\<close>.
\<close>

record i18n =
  gettext :: "string \<Rightarrow> string"
  sprintf :: "string \<Rightarrow> (string \<times> string) list \<Rightarrow> string"
  moment_fromNow :: "string \<Rightarrow> string"

text \<open>
  The functions imported from \<^verbatim>\<open>core/utils\<close>. \<open>'addon\<close> stands for \<^verbatim>\<open>AddonType\<close>;
  \<^verbatim>\<open>isAddonAuthor({ addon, userId })\<close> takes the add-on and the viewer's identifier;
  \<^verbatim>\<open>sanitizeHTML(text, allowedTags)\<close> returns the markup to insert.
\<close>

record 'addon utils =
  isAddonAuthor :: "'addon \<Rightarrow> int option \<Rightarrow> bool"
  nl2br :: "string \<Rightarrow> string"
  sanitizeHTML :: "string \<Rightarrow> string list \<Rightarrow> string"

text \<open>\<^verbatim>\<open>PropsType\<close>, without \<^verbatim>\<open>dispatch\<close> (see \<open>world\<close> below).\<close>

record 'addon props =
  addon :: "'addon option"
  editingReview :: bool
  errorHandler :: errorHandler
  isAuthenticated :: bool
  isReplyToReviewId :: "int option"
  i18n :: i18n
  review :: "review option"
  replyingToReview :: bool
  siteUser :: "siteUser option"
  submittingReply :: bool

subsection \<open>Actions and effects\<close>

text \<open>
  The action creators of \<^verbatim>\<open>amo/actions/reviews\<close>: each constructor is one creator
  applied to its arguments (\<^verbatim>\<open>reviewId\<close>; for \<^verbatim>\<open>sendReplyToReview\<close> the
  \<^verbatim>\<open>errorHandlerId\<close>, the \<^verbatim>\<open>originalReviewId\<close> and the \<^verbatim>\<open>body\<close>).
\<close>

datatype action =
    hideEditReviewForm int
  | hideReplyToReviewForm int
  | sendReplyToReview string int string
  | showEditReviewForm int
  | showReplyToReviewForm int

datatype error = Error string | TypeError string

record world =
  dispatched :: "action list"
  logged :: "string list"
  defaultPrevented :: bool

definition dispatch :: "action \<Rightarrow> world \<Rightarrow> world" where
  "dispatch a w = w\<lparr>dispatched := dispatched w @ [a]\<rparr>"

definition log_debug :: "string \<Rightarrow> world \<Rightarrow> world" where
  "log_debug m w = w\<lparr>logged := logged w @ [m]\<rparr>"

definition preventDefault :: "world \<Rightarrow> world" where
  "preventDefault w = w\<lparr>defaultPrevented := True\<rparr>"

type_synonym outcome = "error option \<times> world"

subsection \<open>The event handlers\<close>

definition onClickToEditReview :: "'addon props \<Rightarrow> world \<Rightarrow> outcome" where
  "onClickToEditReview p w =
     (let w1 = preventDefault w in
      case isReplyToReviewId p of
        Some rid \<Rightarrow> (None, dispatch (showReplyToReviewForm rid) w1)
      | None \<Rightarrow>
          (case review p of
             None \<Rightarrow>
               (None, log_debug ''Cannot edit a review because no review has been loaded.'' w1)
           | Some r \<Rightarrow> (None, dispatch (showEditReviewForm (review_id r)) w1)))"

definition onEscapeReviewOverlay :: "'addon props \<Rightarrow> world \<Rightarrow> outcome" where
  "onEscapeReviewOverlay p w =
     (case review p of
        None \<Rightarrow>
          (None, log_debug ''Cannot hide review form because no review has been loaded.'' w)
      | Some r \<Rightarrow> (None, dispatch (hideEditReviewForm (review_id r)) w))"

definition onReviewSubmitted :: "'addon props \<Rightarrow> world \<Rightarrow> outcome" where
  "onReviewSubmitted p w =
     (case review p of
        None \<Rightarrow>
          (None, log_debug ''Cannot hide review form because no review has been loaded.'' w)
      | Some r \<Rightarrow> (None, dispatch (hideEditReviewForm (review_id r)) w))"

definition onClickToBeginReviewReply :: "'addon props \<Rightarrow> world \<Rightarrow> outcome" where
  "onClickToBeginReviewReply p w =
     (let w1 = preventDefault w in
      case review p of
        None \<Rightarrow>
          (None, log_debug ''Cannot show review form because no review has been loaded.'' w1)
      | Some r \<Rightarrow> (None, dispatch (showReplyToReviewForm (review_id r)) w1))"

definition onDismissReviewReply :: "'addon props \<Rightarrow> world \<Rightarrow> outcome" where
  "onDismissReviewReply p w =
     (case review p of
        None \<Rightarrow>
          (None, log_debug ''Cannot hide review form because no review has been loaded.'' w)
      | Some r \<Rightarrow> (None, dispatch (hideReplyToReviewForm (review_id r)) w))"

text \<open>The argument is \<^verbatim>\<open>reviewData.text\<close>.\<close>

definition onSubmitReviewReply :: "'addon props \<Rightarrow> string \<Rightarrow> world \<Rightarrow> outcome" where
  "onSubmitReviewReply p reviewData_text w =
     (case review p of
        None \<Rightarrow>
          (Some (Error ''The review property cannot be empty when replying to a review''), w)
      | Some r \<Rightarrow>
          (None,
           dispatch
             (sendReplyToReview (eh_id (errorHandler p)) (review_id r) reviewData_text) w))"

subsection \<open>The element tree\<close>

datatype handler =
    OnClickToEditReview
  | OnEscapeReviewOverlay
  | OnReviewSubmitted
  | OnClickToBeginReviewReply
  | OnDismissReviewReply
  | OnSubmitReviewReply

text \<open>The properties \<^verbatim>\<open>renderReply\<close> gives to \<^verbatim>\<open>DismissibleTextForm\<close>.\<close>

record formProps =
  className :: string
  isSubmitting :: bool
  onDismiss :: handler
  onSubmit :: handler
  placeholder :: string
  submitButtonText :: string
  submitButtonInProgressText :: string
  form_text :: "string option"

text \<open>
  What \<^verbatim>\<open>render\<close> builds. \<open>Element tag className children\<close> is a \<^verbatim>\<open>div\<close>,
  \<^verbatim>\<open>h3\<close>, \<^verbatim>\<open>h4\<close> or \<^verbatim>\<open>p\<close> (the one \<^verbatim>\<open>div\<close> without a class has the empty
  class name); \<open>InnerHTML className markup\<close> is the paragraph whose content is set with
  \<^verbatim>\<open>dangerouslySetInnerHTML\<close>; \<open>Anchor href onClick className children\<close> is an
  \<^verbatim>\<open>a\<close>; \<open>Rating styleName rating readOnly\<close>, \<open>AddonReview onEscapeOverlay
  onReviewSubmitted review\<close> and \<open>AddonReviewListItem addon isReplyToReviewId review\<close>
  are component elements with the properties passed; \<open>ErrorIfPresent\<close> is whatever
  \<^verbatim>\<open>errorHandler.renderErrorIfPresent()\<close> returns.
\<close>

datatype 'addon jsx =
    Null
  | Text string
  | LoadingText
  | Icon string
  | Rating string int bool
  | Element string string "'addon jsx list"
  | InnerHTML string string
  | Anchor string handler string "'addon jsx list"
  | AddonReview handler handler review
  | DismissibleTextForm formProps
  | AddonReviewListItem "'addon option" int "review option"
  | ErrorIfPresent

subsection \<open>Rendering\<close>

definition renderReply :: "'addon props \<Rightarrow> 'addon jsx" where
  "renderReply p =
     (case review p of
        None \<Rightarrow> Null
      | Some r \<Rightarrow>
          if reply r = None \<and> \<not> replyingToReview p then Null
          else
            Element ''div'' ''AddonReviewListItem-reply''
              [Element ''h4'' ''AddonReviewListItem-reply-header''
                 [Icon ''reply-arrow'', Text (gettext (i18n p) ''Developer response'')],
               if replyingToReview p then
                 DismissibleTextForm
                   \<lparr>className = ''AddonReviewListItem-reply-form'',
                    isSubmitting = (submittingReply p \<and> \<not> hasError (errorHandler p)),
                    onDismiss = OnDismissReviewReply,
                    onSubmit = OnSubmitReviewReply,
                    placeholder = gettext (i18n p) ''Write a reply to this review.'',
                    submitButtonText =
                      (if reply r \<noteq> None then gettext (i18n p) ''Update reply''
                       else gettext (i18n p) ''Publish reply''),
                    submitButtonInProgressText =
                      (if reply r \<noteq> None then gettext (i18n p) ''Updating reply''
                       else gettext (i18n p) ''Publishing reply''),
                    form_text = map_option body (reply r)\<rparr>
               else AddonReviewListItem (addon p) (review_id r) (reply r)])"

text \<open>The local \<^verbatim>\<open>byline\<close> of \<^verbatim>\<open>render\<close>.\<close>

definition byline :: "'addon props \<Rightarrow> 'addon jsx" where
  "byline p =
     (case review p of
        Some r \<Rightarrow>
          (let timestamp = moment_fromNow (i18n p) (created r) in
           if isReplyToReviewId p \<noteq> None then
             Text (sprintf (i18n p) (gettext (i18n p) ''posted %(timestamp)s'')
                     [(''timestamp'', timestamp)])
           else
             Text (sprintf (i18n p) (gettext (i18n p) ''by %(authorName)s, %(timestamp)s'')
                     [(''authorName'', userName r), (''timestamp'', timestamp)]))
      | None \<Rightarrow> LoadingText)"

text \<open>The local \<^verbatim>\<open>reviewBody\<close> of \<^verbatim>\<open>render\<close>.\<close>

definition reviewBody :: "'addon utils \<Rightarrow> 'addon props \<Rightarrow> 'addon jsx" where
  "reviewBody u p =
     (case review p of
        Some r \<Rightarrow>
          InnerHTML ''AddonReviewListItem-body'' (sanitizeHTML u (nl2br u (body r)) [''br''])
      | None \<Rightarrow> Element ''p'' ''AddonReviewListItem-body'' [LoadingText])"

text \<open>
  The third child of the byline: the edit control. Reading \<^verbatim>\<open>siteUser.id\<close> when
  \<^verbatim>\<open>siteUser\<close> is undefined throws a \<^verbatim>\<open>TypeError\<close>; the conjunction reaches it only
  when the viewer is authenticated and the review is present.
\<close>

definition editControl :: "'addon props \<Rightarrow> error + 'addon jsx" where
  "editControl p =
     (if \<not> isAuthenticated p then Inr Null
      else case review p of
        None \<Rightarrow> Inr Null
      | Some r \<Rightarrow>
          (case siteUser p of
             None \<Rightarrow> Inl (TypeError ''Cannot read property id of undefined'')
           | Some su \<Rightarrow>
               if Some (userId r) = user_id su then
                 Inr (Element ''div'' ''''
                        [if editingReview p
                         then AddonReview OnEscapeReviewOverlay OnReviewSubmitted r
                         else Null,
                         Anchor ''#edit'' OnClickToEditReview
                           ''AddonReviewListItem-edit AddonReviewListItem-control''
                           [if isReplyToReviewId p \<noteq> None
                            then Text (gettext (i18n p) ''Edit my reply'')
                            else Text (gettext (i18n p) ''Edit my review'')]])
               else Inr Null))"

text \<open>The fourth child of the byline: the control that begins a reply.\<close>

definition replyControl :: "'addon utils \<Rightarrow> 'addon props \<Rightarrow> 'addon jsx" where
  "replyControl u p =
     (case review p of
        None \<Rightarrow> Null
      | Some r \<Rightarrow>
          (case addon p of
             None \<Rightarrow> Null
           | Some a \<Rightarrow>
               (case siteUser p of
                  None \<Rightarrow> Null
                | Some su \<Rightarrow>
                    if \<not> replyingToReview p \<and> reply r = None \<and>
                       isAddonAuthor u a (user_id su) \<and> Some (userId r) \<noteq> user_id su
                    then
                      Anchor ''#reply'' OnClickToBeginReviewReply
                        ''AddonReviewListItem-begin-reply AddonReviewListItem-control''
                        [Icon ''reply-arrow'',
                         Text (gettext (i18n p) ''Reply to this review'')]
                    else Null)))"

definition render :: "'addon utils \<Rightarrow> 'addon props \<Rightarrow> error + 'addon jsx" where
  "render u p =
     (case editControl p of
        Inl e \<Rightarrow> Inl e
      | Inr edit \<Rightarrow>
          Inr (Element ''div'' ''AddonReviewListItem''
                 [Element ''h3'' ''AddonReviewListItem-review-header''
                    [case review p of Some r \<Rightarrow> Text (title r) | None \<Rightarrow> LoadingText],
                  reviewBody u p,
                  Element ''div'' ''AddonReviewListItem-byline''
                    [case review p of
                       Some r \<Rightarrow>
                         if isReplyToReviewId p = None
                         then Rating ''small'' (rating r) True
                         else Null
                     | None \<Rightarrow> Null,
                     byline p,
                     edit,
                     replyControl u p],
                  ErrorIfPresent,
                  renderReply p]))"

subsection \<open>Reading the tree\<close>

text \<open>Every element of a tree, the root first.\<close>

fun elements :: "'addon jsx \<Rightarrow> 'addon jsx list" where
  "elements (Element t c ks) = Element t c ks # concat (map elements ks)"
| "elements (Anchor h oc c ks) = Anchor h oc c ks # concat (map elements ks)"
| "elements n = [n]"

fun isEditControl :: "'addon jsx \<Rightarrow> bool" where
  "isEditControl (Anchor h oc c ks) =
     (h = ''#edit'' \<and> oc = OnClickToEditReview \<and>
      c = ''AddonReviewListItem-edit AddonReviewListItem-control'')"
| "isEditControl n = False"

fun isBeginReplyControl :: "'addon jsx \<Rightarrow> bool" where
  "isBeginReplyControl (Anchor h oc c ks) =
     (h = ''#reply'' \<and> oc = OnClickToBeginReviewReply \<and>
      c = ''AddonReviewListItem-begin-reply AddonReviewListItem-control'')"
| "isBeginReplyControl n = False"

fun isReplyBlock :: "'addon jsx \<Rightarrow> bool" where
  "isReplyBlock (Element t c ks) = (t = ''div'' \<and> c = ''AddonReviewListItem-reply'')"
| "isReplyBlock n = False"

fun isLoadingText :: "'addon jsx \<Rightarrow> bool" where
  "isLoadingText LoadingText = True"
| "isLoadingText n = False"

text \<open>A rendering shows a kind of element when it returned a tree that has one.\<close>

definition displays :: "('addon jsx \<Rightarrow> bool) \<Rightarrow> error + 'addon jsx \<Rightarrow> bool" where
  "displays k res = (case res of Inl e \<Rightarrow> False | Inr t \<Rightarrow> list_ex k (elements t))"

subsection \<open>Deriving the view state\<close>

text \<open>An entry of \<^verbatim>\<open>state.reviews.view\<close>.\<close>

record reviewView =
  view_editingReview :: bool
  view_replyingToReview :: bool
  view_submittingReply :: bool

text \<open>The store's state: \<^verbatim>\<open>state.user\<close> and \<^verbatim>\<open>state.reviews.view\<close>.\<close>

record state =
  user :: siteUser
  reviews_view :: "int \<rightharpoonup> reviewView"

text \<open>The object \<^verbatim>\<open>mapStateToProps\<close> returns.\<close>

record stateProps =
  sp_editingReview :: bool
  sp_isAuthenticated :: bool
  sp_replyingToReview :: bool
  sp_siteUser :: siteUser
  sp_submittingReply :: bool

text \<open>
  \<^verbatim>\<open>isAuthenticated\<close> of \<^verbatim>\<open>core/reducers/user\<close> is the first argument. The three
  flags start false and are assigned only when the review and its entry are there.
\<close>

definition mapStateToProps ::
    "(state \<Rightarrow> bool) \<Rightarrow> state \<Rightarrow> 'addon props \<Rightarrow> stateProps" where
  "mapStateToProps isAuthenticated_fn st ownProps =
     (let flags =
        (case review ownProps of
           None \<Rightarrow> (False, False, False)
         | Some r \<Rightarrow>
             (case reviews_view st (review_id r) of
                None \<Rightarrow> (False, False, False)
              | Some v \<Rightarrow>
                  (view_editingReview v, view_replyingToReview v, view_submittingReply v)))
      in case flags of
        (editing, replying, submitting) \<Rightarrow>
          \<lparr>sp_editingReview = editing,
           sp_isAuthenticated = isAuthenticated_fn st,
           sp_replyingToReview = replying,
           sp_siteUser = user st,
           sp_submittingReply = submitting\<rparr>)"

text \<open>
  \<^verbatim>\<open>connect(mapStateToProps)\<close>, the outermost wrapper of the exported component
  (\<^verbatim>\<open>compose(connect(mapStateToProps), withErrorHandler(...), translate(...))\<close>): the
  properties the base class receives are the own properties with the five entries of
  the object \<^verbatim>\<open>mapStateToProps\<close> returns written over them. \<^verbatim>\<open>errorHandler\<close> and
  \<^verbatim>\<open>i18n\<close>, which the two inner wrappers supply, are left as they are.
\<close>

definition connectedProps ::
    "(state \<Rightarrow> bool) \<Rightarrow> state \<Rightarrow> 'addon props \<Rightarrow> 'addon props" where
  "connectedProps isAuthenticated_fn st ownProps =
     (let sp = mapStateToProps isAuthenticated_fn st ownProps in
      ownProps
        \<lparr>editingReview := sp_editingReview sp,
         isAuthenticated := sp_isAuthenticated sp,
         replyingToReview := sp_replyingToReview sp,
         siteUser := Some (sp_siteUser sp),
         submittingReply := sp_submittingReply sp\<rparr>)"

subsection \<open>Reading the properties and the tree\<close>

text \<open>\<^verbatim>\<open>review && review.reply\<close>: the review is there and has a reply.\<close>

definition hasReply :: "'addon props \<Rightarrow> bool" where
  "hasReply p = (case review p of None \<Rightarrow> False | Some r \<Rightarrow> reply r \<noteq> None)"

fun formOf :: "'addon jsx \<Rightarrow> formProps option" where
  "formOf (DismissibleTextForm fp) = Some fp"
| "formOf n = None"

text \<open>The properties of every \<^verbatim>\<open>DismissibleTextForm\<close> of a tree, in order.\<close>

definition replyForms :: "'addon jsx \<Rightarrow> formProps list" where
  "replyForms t = List.map_filter formOf (elements t)"

subsection \<open>Concrete inputs\<close>

text \<open>
  Values for the parameters and properties, at which the theorems below are
  instantiated: a translation that returns its key, an add-on given by the list of
  its authors' identifiers, a review by user 7 and a developer's reply by user 9.
\<close>

definition testI18n :: i18n where
  "testI18n =
     \<lparr>gettext = (\<lambda>s. s), sprintf = (\<lambda>t args. t), moment_fromNow = (\<lambda>c. ''a week ago'')\<rparr>"

definition testUtils :: "int list utils" where
  "testUtils =
     \<lparr>isAddonAuthor =
        (\<lambda>authors uid. case uid of None \<Rightarrow> False | Some i \<Rightarrow> i \<in> set authors),
      nl2br = (\<lambda>s. s),
      sanitizeHTML = (\<lambda>s allowed. s)\<rparr>"

definition developerReply :: review where
  "developerReply = Review 6 [] ''Thanks for the report'' 0 9 ''dev'' ''2017-08-02'' None"

definition userReview :: review where
  "userReview = Review 5 ''Great'' ''Works well'' 4 7 ''ann'' ''2017-08-01'' None"

definition answeredReview :: review where
  "answeredReview =
     Review 5 ''Great'' ''Works well'' 4 7 ''ann'' ''2017-08-01'' (Some developerReply)"

text \<open>The add-on's author, signed in, looking at \<open>userReview\<close>.\<close>

definition developerProps :: "int list props" where
  "developerProps =
     \<lparr>addon = Some [9],
      editingReview = False,
      errorHandler = \<lparr>eh_id = ''AddonReviewListItem-5'', hasError = False\<rparr>,
      isAuthenticated = True,
      isReplyToReviewId = None,
      i18n = testI18n,
      review = Some userReview,
      replyingToReview = False,
      siteUser = Some \<lparr>user_id = Some 9\<rparr>,
      submittingReply = False\<rparr>"

definition emptyWorld :: world where
  "emptyWorld = \<lparr>dispatched = [], logged = [], defaultPrevented = False\<rparr>"

text \<open>A store whose only view entry is for review 6.\<close>

definition testState :: state where
  "testState =
     \<lparr>user = \<lparr>user_id = Some 9\<rparr>,
      reviews_view =
        [6 \<mapsto> \<lparr>view_editingReview = True, view_replyingToReview = True,
                 view_submittingReply = True\<rparr>]\<rparr>"

lemmas test_defs = developerProps_def userReview_def answeredReview_def developerReply_def
  testUtils_def testI18n_def emptyWorld_def

lemmas render_defs = render_def editControl_def replyControl_def renderReply_def byline_def
  reviewBody_def

section \<open>Properties\<close>

subsection \<open>When rendering fails\<close>

text \<open>
  \<^verbatim>\<open>render\<close> throws exactly when an authenticated viewer looks at a loaded review and
  \<^verbatim>\<open>siteUser\<close> is undefined; in every other case it returns a tree.
\<close>

lemma render_throws_iff:
  "(\<exists>e. render u p = Inl e) \<longleftrightarrow>
     isAuthenticated p \<and> review p \<noteq> None \<and> siteUser p = None"
  by (auto simp: render_def editControl_def split: option.splits sum.splits if_splits)

lemma render_returns:
  "siteUser p \<noteq> None \<Longrightarrow> \<exists>t. render u p = Inr t"
  using render_throws_iff [of u p] by (cases "render u p") auto

subsection \<open>The body of a loaded review\<close>

text \<open>
  The paragraph of a loaded review is filled with
  \<^verbatim>\<open>sanitizeHTML(nl2br(review.body), ['br'])\<close>, whatever the two functions are; it is
  the second child of the tree.
\<close>

lemma reviewBody_loaded:
  "review p = Some r \<Longrightarrow>
     reviewBody u p =
       InnerHTML ''AddonReviewListItem-body'' (sanitizeHTML u (nl2br u (body r)) [''br''])"
  by (simp add: reviewBody_def)

lemma render_body_loaded:
  "review p = Some r \<Longrightarrow> render u p = Inr (Element t c ks) \<Longrightarrow>
     ks ! 1 =
       InnerHTML ''AddonReviewListItem-body'' (sanitizeHTML u (nl2br u (body r)) [''br''])"
  by (auto simp: render_def reviewBody_def split: sum.splits)

subsection \<open>Submitting a reply\<close>

text \<open>
  C1. \<^verbatim>\<open>onSubmitReviewReply\<close> without a review throws an \<^verbatim>\<open>Error\<close> and leaves the
  world as it was, so nothing is dispatched. With a review it returns normally and
  dispatches exactly one action, \<^verbatim>\<open>sendReplyToReview\<close> with the error handler's id, the
  review's id and the submitted text.
\<close>

theorem onSubmitReviewReply_throws_or_sends:
  "(review p = None \<longrightarrow>
      (\<exists>m. fst (onSubmitReviewReply p txt w) = Some (Error m)) \<and>
      snd (onSubmitReviewReply p txt w) = w) \<and>
   (\<forall>r. review p = Some r \<longrightarrow>
      fst (onSubmitReviewReply p txt w) = None \<and>
      snd (onSubmitReviewReply p txt w) =
        w\<lparr>dispatched := dispatched w @
             [sendReplyToReview (eh_id (errorHandler p)) (review_id r) txt]\<rparr>)"
  by (simp add: onSubmitReviewReply_def dispatch_def)

theorem onSubmitReviewReply_throws_or_sends_witness:
  "(\<exists>m. fst (onSubmitReviewReply (developerProps\<lparr>review := None\<rparr>) ''Thanks'' emptyWorld)
          = Some (Error m)) \<and>
   dispatched (snd (onSubmitReviewReply (developerProps\<lparr>review := None\<rparr>) ''Thanks'' emptyWorld))
     = [] \<and>
   dispatched (snd (onSubmitReviewReply developerProps ''Thanks'' emptyWorld))
     = [sendReplyToReview ''AddonReviewListItem-5'' 5 ''Thanks'']"
  using onSubmitReviewReply_throws_or_sends
      [of "developerProps\<lparr>review := None\<rparr>" "''Thanks''" emptyWorld]
    onSubmitReviewReply_throws_or_sends [of developerProps "''Thanks''" emptyWorld]
  by (simp add: test_defs)

subsection \<open>The control that begins a reply\<close>

text \<open>
  C2. The rendering shows the begin-reply control if and only if the review, the add-on
  and the viewer are all present, \<^verbatim>\<open>replyingToReview\<close> is false, the review has no
  reply, the viewer is an author of the add-on and the viewer's identifier differs from
  the review's author. In particular a review that has a reply never shows it.
\<close>

theorem begin_reply_control_shown_iff:
  "(displays isBeginReplyControl (render u p) \<longleftrightarrow>
     (\<exists>r a su. review p = Some r \<and> addon p = Some a \<and> siteUser p = Some su \<and>
        \<not> replyingToReview p \<and> reply r = None \<and>
        isAddonAuthor u a (user_id su) \<and> Some (userId r) \<noteq> user_id su)) \<and>
   (\<forall>r. review p = Some r \<and> reply r \<noteq> None \<longrightarrow>
        \<not> displays isBeginReplyControl (render u p))"
  by (auto simp: displays_def render_defs Let_def split: option.splits sum.splits if_splits)

theorem begin_reply_control_shown_iff_witness:
  "displays isBeginReplyControl (render testUtils developerProps) \<and>
   \<not> displays isBeginReplyControl
       (render testUtils (developerProps\<lparr>review := Some answeredReview\<rparr>))"
  using begin_reply_control_shown_iff [of testUtils developerProps]
    begin_reply_control_shown_iff
      [of testUtils "developerProps\<lparr>review := Some answeredReview\<rparr>"]
  by (simp add: test_defs)

subsection \<open>The edit control\<close>

text \<open>
  C3. The rendering shows the edit control if and only if the viewer is authenticated,
  the review is present and the review's author identifier equals the viewer's
  identifier. (A viewer that is undefined has no identifier; there \<^verbatim>\<open>render\<close> throws
  and shows nothing, see \<open>render_throws_iff\<close>.)
\<close>

theorem edit_control_shown_iff:
  "displays isEditControl (render u p) \<longleftrightarrow>
     (isAuthenticated p \<and>
      (\<exists>r su. review p = Some r \<and> siteUser p = Some su \<and> Some (userId r) = user_id su))"
  by (auto simp: displays_def render_defs Let_def split: option.splits sum.splits if_splits)

theorem edit_control_shown_iff_witness:
  "displays isEditControl
     (render testUtils (developerProps\<lparr>siteUser := Some \<lparr>user_id = Some 7\<rparr>\<rparr>)) \<and>
   \<not> displays isEditControl (render testUtils developerProps) \<and>
   \<not> displays isEditControl
     (render testUtils
        (developerProps\<lparr>siteUser := Some \<lparr>user_id = Some 7\<rparr>, isAuthenticated := False\<rparr>))"
  using edit_control_shown_iff
      [of testUtils "developerProps\<lparr>siteUser := Some \<lparr>user_id = Some 7\<rparr>\<rparr>"]
    edit_control_shown_iff [of testUtils developerProps]
    edit_control_shown_iff
      [of testUtils
          "developerProps\<lparr>siteUser := Some \<lparr>user_id = Some 7\<rparr>, isAuthenticated := False\<rparr>"]
  by (simp add: test_defs)

subsection \<open>Clicking edit on a reply\<close>

text \<open>
  C4. When \<^verbatim>\<open>isReplyToReviewId\<close> is defined, \<^verbatim>\<open>onClickToEditReview\<close> returns normally
  and dispatches exactly one action, \<^verbatim>\<open>showReplyToReviewForm\<close> for the identifier
  \<^verbatim>\<open>isReplyToReviewId\<close> (the one \<^verbatim>\<open>renderReply\<close> passes to the nested item), and no
  \<^verbatim>\<open>showEditReviewForm\<close>; the review is not consulted, so this holds when it is absent.
\<close>

theorem edit_click_on_reply_shows_reply_form:
  "isReplyToReviewId p = Some rid \<Longrightarrow>
     fst (onClickToEditReview p w) = None \<and>
     dispatched (snd (onClickToEditReview p w)) = dispatched w @ [showReplyToReviewForm rid] \<and>
     (\<forall>i. showEditReviewForm i \<in> set (dispatched (snd (onClickToEditReview p w))) \<longrightarrow>
          showEditReviewForm i \<in> set (dispatched w))"
  by (simp add: onClickToEditReview_def dispatch_def preventDefault_def)

theorem edit_click_on_reply_shows_reply_form_witness:
  "dispatched (snd (onClickToEditReview
      (developerProps\<lparr>isReplyToReviewId := Some 5, review := None\<rparr>) emptyWorld))
     = [showReplyToReviewForm 5] \<and>
   dispatched (snd (onClickToEditReview
      (developerProps\<lparr>isReplyToReviewId := Some 5, review := Some developerReply\<rparr>) emptyWorld))
     = [showReplyToReviewForm 5]"
  using edit_click_on_reply_shows_reply_form
      [of "developerProps\<lparr>isReplyToReviewId := Some 5, review := None\<rparr>" 5 emptyWorld]
    edit_click_on_reply_shows_reply_form
      [of "developerProps\<lparr>isReplyToReviewId := Some 5, review := Some developerReply\<rparr>" 5
          emptyWorld]
  by (simp add: test_defs)

subsection \<open>The reply block\<close>

text \<open>
  For any properties, \<^verbatim>\<open>renderReply\<close> returns the reply block when the review is
  present and either has a reply or is being replied to, and \<^verbatim>\<open>null\<close> otherwise.
\<close>

lemma renderReply_block_iff:
  "(isReplyBlock (renderReply p) \<longleftrightarrow>
      review p \<noteq> None \<and> (hasReply p \<or> replyingToReview p)) \<and>
   (renderReply p = Null \<longleftrightarrow>
      \<not> (review p \<noteq> None \<and> (hasReply p \<or> replyingToReview p)))"
  by (auto simp: hasReply_def renderReply_def split: option.splits)

text \<open>
  The connected component never has \<^verbatim>\<open>replyingToReview\<close> true without a review, and
  always has a \<^verbatim>\<open>siteUser\<close>, so its rendering returns a tree.
\<close>

lemma connectedProps_replying_review:
  "replyingToReview (connectedProps auth st own) \<Longrightarrow> review (connectedProps auth st own) \<noteq> None"
  by (auto simp: connectedProps_def mapStateToProps_def Let_def split: option.splits)

lemma connectedProps_render_returns:
  "\<exists>t. render u (connectedProps auth st own) = Inr t"
  by (rule render_returns) (simp add: connectedProps_def Let_def)

text \<open>
  C5. For the properties the connected component receives, the reply block is rendered
  if and only if the review has a reply or \<^verbatim>\<open>replyingToReview\<close> is true: this holds of
  what \<^verbatim>\<open>renderReply\<close> returns and of the tree \<^verbatim>\<open>render\<close> returns.
\<close>

theorem reply_block_shown_iff:
  "(isReplyBlock (renderReply (connectedProps auth st own)) \<longleftrightarrow>
      hasReply (connectedProps auth st own) \<or> replyingToReview (connectedProps auth st own)) \<and>
   (displays isReplyBlock (render u (connectedProps auth st own)) \<longleftrightarrow>
      hasReply (connectedProps auth st own) \<or> replyingToReview (connectedProps auth st own))"
proof -
  let ?p = "connectedProps auth st own"
  have inv: "replyingToReview ?p \<longrightarrow> review ?p \<noteq> None"
    using connectedProps_replying_review [of auth st own] by blast
  have su: "siteUser ?p \<noteq> None"
    by (simp add: connectedProps_def Let_def)
  have a: "isReplyBlock (renderReply ?p) \<longleftrightarrow> hasReply ?p \<or> replyingToReview ?p"
    using inv renderReply_block_iff [of ?p] by (auto simp: hasReply_def)
  have b: "displays isReplyBlock (render u ?p) \<longleftrightarrow> isReplyBlock (renderReply ?p)"
    using su
    by (auto simp: displays_def render_def editControl_def replyControl_def byline_def
        reviewBody_def renderReply_def split: option.splits sum.splits if_splits)
  show ?thesis using a b by simp
qed

theorem reply_block_shown_iff_witness:
  "displays isReplyBlock
     (render testUtils
        (connectedProps (\<lambda>s. user_id (user s) \<noteq> None) testState
           (developerProps\<lparr>review := Some developerReply\<rparr>))) \<and>
   displays isReplyBlock
     (render testUtils
        (connectedProps (\<lambda>s. user_id (user s) \<noteq> None) testState
           (developerProps\<lparr>review := Some answeredReview\<rparr>))) \<and>
   \<not> displays isReplyBlock
     (render testUtils
        (connectedProps (\<lambda>s. user_id (user s) \<noteq> None) testState developerProps)) \<and>
   \<not> displays isReplyBlock
     (render testUtils
        (connectedProps (\<lambda>s. user_id (user s) \<noteq> None) testState
           (developerProps\<lparr>review := None, replyingToReview := True\<rparr>)))"
  using reply_block_shown_iff
      [of "\<lambda>s. user_id (user s) \<noteq> None" testState
          "developerProps\<lparr>review := Some developerReply\<rparr>" testUtils]
    reply_block_shown_iff
      [of "\<lambda>s. user_id (user s) \<noteq> None" testState
          "developerProps\<lparr>review := Some answeredReview\<rparr>" testUtils]
    reply_block_shown_iff
      [of "\<lambda>s. user_id (user s) \<noteq> None" testState developerProps testUtils]
    reply_block_shown_iff
      [of "\<lambda>s. user_id (user s) \<noteq> None" testState
          "developerProps\<lparr>review := None, replyingToReview := True\<rparr>" testUtils]
  by (simp add: test_defs testState_def hasReply_def connectedProps_def mapStateToProps_def)

subsection \<open>The handlers that wait for the review\<close>

text \<open>
  C6. Each of \<^verbatim>\<open>onEscapeReviewOverlay\<close> (cancel-edit), \<^verbatim>\<open>onReviewSubmitted\<close>
  (commit-edit), \<^verbatim>\<open>onClickToBeginReviewReply\<close> (begin-reply) and
  \<^verbatim>\<open>onDismissReviewReply\<close> (cancel-reply) returns normally. Without a review it logs one
  message and dispatches nothing; with a review it dispatches exactly one action for the
  review's identifier: \<^verbatim>\<open>hideEditReviewForm\<close>, \<^verbatim>\<open>hideEditReviewForm\<close>,
  \<^verbatim>\<open>showReplyToReviewForm\<close> and \<^verbatim>\<open>hideReplyToReviewForm\<close> respectively.
\<close>

theorem guarded_handlers_log_or_dispatch:
  "(review p = None \<longrightarrow>
      onEscapeReviewOverlay p w =
        (None, w\<lparr>logged := logged w @
           [''Cannot hide review form because no review has been loaded.'']\<rparr>) \<and>
      onReviewSubmitted p w =
        (None, w\<lparr>logged := logged w @
           [''Cannot hide review form because no review has been loaded.'']\<rparr>) \<and>
      onClickToBeginReviewReply p w =
        (None, w\<lparr>logged := logged w @
           [''Cannot show review form because no review has been loaded.''],
           defaultPrevented := True\<rparr>) \<and>
      onDismissReviewReply p w =
        (None, w\<lparr>logged := logged w @
           [''Cannot hide review form because no review has been loaded.'']\<rparr>)) \<and>
   (\<forall>r. review p = Some r \<longrightarrow>
      onEscapeReviewOverlay p w =
        (None, w\<lparr>dispatched := dispatched w @ [hideEditReviewForm (review_id r)]\<rparr>) \<and>
      onReviewSubmitted p w =
        (None, w\<lparr>dispatched := dispatched w @ [hideEditReviewForm (review_id r)]\<rparr>) \<and>
      onClickToBeginReviewReply p w =
        (None, w\<lparr>dispatched := dispatched w @ [showReplyToReviewForm (review_id r)],
           defaultPrevented := True\<rparr>) \<and>
      onDismissReviewReply p w =
        (None, w\<lparr>dispatched := dispatched w @ [hideReplyToReviewForm (review_id r)]\<rparr>))"
  by (simp add: onEscapeReviewOverlay_def onReviewSubmitted_def onClickToBeginReviewReply_def
      onDismissReviewReply_def dispatch_def log_debug_def preventDefault_def)

theorem guarded_handlers_log_or_dispatch_witness:
  "map (\<lambda>h. (fst (h (developerProps\<lparr>review := None\<rparr>) emptyWorld),
              dispatched (snd (h (developerProps\<lparr>review := None\<rparr>) emptyWorld)),
              length (logged (snd (h (developerProps\<lparr>review := None\<rparr>) emptyWorld)))))
     [onEscapeReviewOverlay, onReviewSubmitted, onClickToBeginReviewReply, onDismissReviewReply]
     = [(None, [], 1), (None, [], 1), (None, [], 1), (None, [], 1)] \<and>
   map (\<lambda>h. (fst (h developerProps emptyWorld), dispatched (snd (h developerProps emptyWorld))))
     [onEscapeReviewOverlay, onReviewSubmitted, onClickToBeginReviewReply, onDismissReviewReply]
     = [(None, [hideEditReviewForm 5]), (None, [hideEditReviewForm 5]),
        (None, [showReplyToReviewForm 5]), (None, [hideReplyToReviewForm 5])]"
  using guarded_handlers_log_or_dispatch [of "developerProps\<lparr>review := None\<rparr>" emptyWorld]
    guarded_handlers_log_or_dispatch [of developerProps emptyWorld]
  by (simp add: test_defs)

subsection \<open>Rendering before the review is loaded\<close>

text \<open>
  C8. Without a review \<^verbatim>\<open>render\<close> returns the tree below, whatever the other
  properties are: the title, the body and the byline are each a \<^verbatim>\<open>LoadingText\<close>, and
  neither the edit control nor the begin-reply control is in it.
\<close>

theorem render_without_review:
  "review p = None \<Longrightarrow>
     render u p =
       Inr (Element ''div'' ''AddonReviewListItem''
              [Element ''h3'' ''AddonReviewListItem-review-header'' [LoadingText],
               Element ''p'' ''AddonReviewListItem-body'' [LoadingText],
               Element ''div'' ''AddonReviewListItem-byline'' [Null, LoadingText, Null, Null],
               ErrorIfPresent,
               Null]) \<and>
     \<not> displays isEditControl (render u p) \<and>
     \<not> displays isBeginReplyControl (render u p)"
  by (simp add: displays_def render_defs)

theorem render_without_review_witness:
  "\<not> displays isEditControl (render testUtils (developerProps\<lparr>review := None\<rparr>)) \<and>
   \<not> displays isBeginReplyControl (render testUtils (developerProps\<lparr>review := None\<rparr>)) \<and>
   \<not> displays isEditControl
       (render testUtils (developerProps\<lparr>review := None, isAuthenticated := False\<rparr>)) \<and>
   displays isLoadingText (render testUtils (developerProps\<lparr>review := None\<rparr>))"
  using render_without_review [of "developerProps\<lparr>review := None\<rparr>" testUtils]
    render_without_review
      [of "developerProps\<lparr>review := None, isAuthenticated := False\<rparr>" testUtils]
  by (simp add: test_defs displays_def)

subsection \<open>The default view state\<close>

text \<open>
  C9. If the review is absent, or \<^verbatim>\<open>state.reviews.view\<close> has no entry for the review's
  identifier, then \<^verbatim>\<open>mapStateToProps\<close> returns \<^verbatim>\<open>editingReview\<close>,
  \<^verbatim>\<open>replyingToReview\<close> and \<^verbatim>\<open>submittingReply\<close> all false.
\<close>

theorem mapStateToProps_default_flags:
  "review ownProps = None \<or>
   (\<exists>r. review ownProps = Some r \<and> reviews_view st (review_id r) = None) \<Longrightarrow>
     \<not> sp_editingReview (mapStateToProps auth st ownProps) \<and>
     \<not> sp_replyingToReview (mapStateToProps auth st ownProps) \<and>
     \<not> sp_submittingReply (mapStateToProps auth st ownProps)"
  by (auto simp: mapStateToProps_def)

theorem mapStateToProps_default_flags_witness:
  "\<not> sp_editingReview
       (mapStateToProps (\<lambda>s. user_id (user s) \<noteq> None) testState developerProps) \<and>
   \<not> sp_replyingToReview
       (mapStateToProps (\<lambda>s. user_id (user s) \<noteq> None) testState developerProps) \<and>
   \<not> sp_submittingReply
       (mapStateToProps (\<lambda>s. user_id (user s) \<noteq> None) testState developerProps) \<and>
   \<not> sp_replyingToReview
       (mapStateToProps (\<lambda>s. user_id (user s) \<noteq> None) testState
          (developerProps\<lparr>review := None\<rparr>))"
proof -
  have a: "review developerProps = None \<or>
      (\<exists>r. review developerProps = Some r \<and> reviews_view testState (review_id r) = None)"
    by (simp add: test_defs testState_def)
  have b: "review (developerProps\<lparr>review := None\<rparr>) = None \<or>
      (\<exists>r. review (developerProps\<lparr>review := None\<rparr>) = Some r \<and>
           reviews_view testState (review_id r) = None)"
    by simp
  show ?thesis
    using mapStateToProps_default_flags [OF a, of "\<lambda>s. user_id (user s) \<noteq> None"]
      mapStateToProps_default_flags [OF b, of "\<lambda>s. user_id (user s) \<noteq> None"]
    by simp
qed

subsection \<open>The reply form's progress flag\<close>

text \<open>
  C10. \<^verbatim>\<open>renderReply\<close> shows the reply form exactly when the review is present and
  \<^verbatim>\<open>replyingToReview\<close> is true, and then the form's \<^verbatim>\<open>isSubmitting\<close> is true if and
  only if \<^verbatim>\<open>submittingReply\<close> is true and the error handler has no error; so an error
  turns the flag off while \<^verbatim>\<open>submittingReply\<close> is still true. The tree \<^verbatim>\<open>render\<close>
  returns has the same forms.
\<close>

theorem reply_form_isSubmitting:
  "map isSubmitting (replyForms (renderReply p)) =
     (if review p \<noteq> None \<and> replyingToReview p
      then [submittingReply p \<and> \<not> hasError (errorHandler p)] else []) \<and>
   (\<forall>t. render u p = Inr t \<longrightarrow> replyForms t = replyForms (renderReply p))"
  by (auto simp: replyForms_def List.map_filter_simps render_defs Let_def
      split: option.splits sum.splits if_splits)

theorem reply_form_isSubmitting_witness:
  "map isSubmitting
     (replyForms (renderReply (developerProps\<lparr>replyingToReview := True, submittingReply := True\<rparr>)))
     = [True] \<and>
   map isSubmitting
     (replyForms (renderReply
        (developerProps\<lparr>replyingToReview := True, submittingReply := True,
           errorHandler := \<lparr>eh_id = ''AddonReviewListItem-5'', hasError = True\<rparr>\<rparr>)))
     = [False] \<and>
   map isSubmitting (replyForms (renderReply (developerProps\<lparr>replyingToReview := True\<rparr>)))
     = [False] \<and>
   map isSubmitting (replyForms (renderReply (developerProps\<lparr>submittingReply := True\<rparr>))) = []"
  using reply_form_isSubmitting
      [of "developerProps\<lparr>replyingToReview := True, submittingReply := True\<rparr>" testUtils]
    reply_form_isSubmitting
      [of "developerProps\<lparr>replyingToReview := True, submittingReply := True,
             errorHandler := \<lparr>eh_id = ''AddonReviewListItem-5'', hasError = True\<rparr>\<rparr>" testUtils]
    reply_form_isSubmitting [of "developerProps\<lparr>replyingToReview := True\<rparr>" testUtils]
    reply_form_isSubmitting [of "developerProps\<lparr>submittingReply := True\<rparr>" testUtils]
  by (simp add: test_defs)

end
